theory Spec2Isabelle
  imports Complex_Main
begin

section \<open>Common values\<close>

text \<open>
  Python numbers (\<open>int\<close> and finite \<open>float\<close>) are modelled as exact rationals: the
  comparisons the code makes are exact on them. A NaN cell of a pandas column is
  \<open>None\<close> in a \<open>rat option\<close>. Texts are ASCII strings.
\<close>

datatype error = KeyError | NotFittedError | IndexError | LibraryError
  | OverflowError | OutOfBoundsTimedelta | OutOfBoundsDatetime

section \<open>SmartAlertSystem (ai_models.py, lines 122-189)\<close>

text \<open>
  A forecast point is a dictionary; every key that \<open>analyze_forecast\<close> reads may be
  absent, so each field is optional (\<open>None\<close>: the key is missing).
\<close>

record forecast =
  f_timestamp :: "string option"
  f_date :: "string option"
  f_temperature :: "rat option"
  f_wind_speed :: "rat option"
  f_description :: "string option"

datatype alert_value = Num rat | Txt string

record alert =
  a_type :: string
  a_date :: string
  a_value :: alert_value
  a_message :: string

record alert_system =
  extreme_heat_threshold :: rat
  freezing_threshold :: rat
  high_wind_threshold :: rat
  heavy_rain_threshold :: rat
  storm_keywords :: "string list"


text \<open>\<open>dict.get(key, default)\<close>.\<close>

definition get_or :: "'a option \<Rightarrow> 'a \<Rightarrow> 'a" where
  "get_or v d = (case v of None \<Rightarrow> d | Some x \<Rightarrow> x)"

text \<open>\<open>str.lower()\<close> on ASCII text.\<close>

definition lower_char :: "char \<Rightarrow> char" where
  "lower_char c =
     (let n = (of_char c :: nat) in if 65 \<le> n \<and> n \<le> 90 then char_of (n + 32) else c)"

definition lower :: "string \<Rightarrow> string" where
  "lower s = map lower_char s"

text \<open>\<open>keyword in description\<close>: the keyword occurs as a contiguous substring.\<close>

primrec starts_with :: "string \<Rightarrow> string \<Rightarrow> bool" where
  "starts_with [] s = True"
| "starts_with (k # ks) s = (case s of [] \<Rightarrow> False | c # cs \<Rightarrow> k = c \<and> starts_with ks cs)"

primrec contains :: "string \<Rightarrow> string \<Rightarrow> bool" where
  "contains k [] = (k = [])"
| "contains k (c # cs) = (starts_with k (c # cs) \<or> contains k cs)"

text \<open>
  The four alert dictionaries. The f-strings interpolate a number with Python's \<open>str\<close>;
  that conversion is the parameter \<open>str_of\<close>. The degree sign is its two UTF-8 bytes.
\<close>

definition heat_alert :: "(rat \<Rightarrow> string) \<Rightarrow> string \<Rightarrow> rat \<Rightarrow> alert" where
  "heat_alert str_of date temp =
     \<lparr> a_type = ''extreme_heat'', a_date = date, a_value = Num temp,
       a_message = ''Extreme heat warning: '' @ str_of temp @ [CHR 0xC2, CHR 0xB0]
                   @ ''C expected on '' @ date \<rparr>"

definition freezing_alert :: "(rat \<Rightarrow> string) \<Rightarrow> string \<Rightarrow> rat \<Rightarrow> alert" where
  "freezing_alert str_of date temp =
     \<lparr> a_type = ''freezing'', a_date = date, a_value = Num temp,
       a_message = ''Freezing conditions warning: '' @ str_of temp @ [CHR 0xC2, CHR 0xB0]
                   @ ''C expected on '' @ date \<rparr>"

definition wind_alert :: "(rat \<Rightarrow> string) \<Rightarrow> string \<Rightarrow> rat \<Rightarrow> alert" where
  "wind_alert str_of date wind =
     \<lparr> a_type = ''high_winds'', a_date = date, a_value = Num wind,
       a_message = ''High wind warning: '' @ str_of wind @ '' m/s expected on '' @ date \<rparr>"

definition storm_alert :: "string \<Rightarrow> string \<Rightarrow> alert" where
  "storm_alert date description =
     \<lparr> a_type = ''storm'', a_date = date, a_value = Txt description,
       a_message = ''Storm warning: '' @ description @ '' expected on '' @ date \<rparr>"

text \<open>
  The inner loop over \<open>self.storm_keywords\<close> (lines 168-176): the first keyword found
  in the description appends one alert and \<open>break\<close>s.
\<close>

fun storm_scan :: "string list \<Rightarrow> string \<Rightarrow> string \<Rightarrow> alert list" where
  "storm_scan [] date description = []"
| "storm_scan (keyword # rest) date description =
     (if contains keyword description then [storm_alert date description]
      else storm_scan rest date description)"

text \<open>The body of the outer loop (lines 135-176): the alerts appended for one point.\<close>

definition point_alerts :: "(rat \<Rightarrow> string) \<Rightarrow> alert_system \<Rightarrow> forecast \<Rightarrow> alert list" where
  "point_alerts str_of st f =
     (let date = get_or (f_timestamp f) (get_or (f_date f) '''');
          temp = get_or (f_temperature f) 0;
          wind = get_or (f_wind_speed f) 0;
          description = lower (get_or (f_description f) '''')
      in (if temp \<ge> extreme_heat_threshold st then [heat_alert str_of date temp] else [])
       @ (if temp \<le> freezing_threshold st then [freezing_alert str_of date temp] else [])
       @ (if wind \<ge> high_wind_threshold st then [wind_alert str_of date wind] else [])
       @ storm_scan (storm_keywords st) date description)"

text \<open>The outer loop, with the list \<open>alerts\<close> as accumulator.\<close>

fun analyze_loop :: "(rat \<Rightarrow> string) \<Rightarrow> alert_system \<Rightarrow> alert list \<Rightarrow> forecast list \<Rightarrow> alert list" where
  "analyze_loop str_of st alerts [] = alerts"
| "analyze_loop str_of st alerts (f # fs) =
     analyze_loop str_of st (alerts @ point_alerts str_of st f) fs"

definition analyze_forecast :: "(rat \<Rightarrow> string) \<Rightarrow> alert_system \<Rightarrow> forecast list \<Rightarrow> alert list" where
  "analyze_forecast str_of st forecast_data = analyze_loop str_of st [] forecast_data"

text \<open>\<open>set_thresholds\<close>: an argument left at \<open>None\<close> keeps the field.\<close>

definition set_thresholds ::
  "alert_system \<Rightarrow> rat option \<Rightarrow> rat option \<Rightarrow> rat option \<Rightarrow> rat option \<Rightarrow> alert_system" where
  "set_thresholds st extreme_heat freezing high_wind heavy_rain =
     (let st1 = (case extreme_heat of None \<Rightarrow> st | Some v \<Rightarrow> st\<lparr>extreme_heat_threshold := v\<rparr>);
          st2 = (case freezing of None \<Rightarrow> st1 | Some v \<Rightarrow> st1\<lparr>freezing_threshold := v\<rparr>);
          st3 = (case high_wind of None \<Rightarrow> st2 | Some v \<Rightarrow> st2\<lparr>high_wind_threshold := v\<rparr>)
      in (case heavy_rain of None \<Rightarrow> st3 | Some v \<Rightarrow> st3\<lparr>heavy_rain_threshold := v\<rparr>))"

text \<open>Selecting the alerts of one type from a result.\<close>

definition alerts_of_type :: "string \<Rightarrow> alert list \<Rightarrow> alert list" where
  "alerts_of_type t alerts = filter (\<lambda>a. a_type a = t) alerts"

definition forecast_point :: "string \<Rightarrow> rat \<Rightarrow> rat \<Rightarrow> string \<Rightarrow> forecast" where
  "forecast_point ts temp wind desc =
     \<lparr> f_timestamp = Some ts, f_date = None, f_temperature = Some temp,
       f_wind_speed = Some wind, f_description = Some desc \<rparr>"

section \<open>WeatherTrendPredictor (ai_models.py, lines 10-120)\<close>

subsection \<open>Timestamps\<close>

text \<open>
  A parsed timestamp (the result of \<open>pd.to_datetime\<close>) with the fields of a pandas
  \<open>Timestamp\<close>; sub-second time is one field of nanoseconds. The calendar is the proleptic
  Gregorian one of Python's \<open>datetime\<close>.
\<close>

record date_time =
  dt_year :: nat
  dt_month :: nat
  dt_day :: nat
  dt_hour :: nat
  dt_minute :: nat
  dt_second :: nat
  dt_nanosecond :: nat

definition is_leap :: "nat \<Rightarrow> bool" where
  "is_leap y = (y mod 4 = 0 \<and> (y mod 100 \<noteq> 0 \<or> y mod 400 = 0))"

definition days_in_month :: "nat \<Rightarrow> nat \<Rightarrow> nat" where
  "days_in_month y m =
     (if m = 2 then (if is_leap y then 29 else 28)
      else if m = 4 \<or> m = 6 \<or> m = 9 \<or> m = 11 then 30 else 31)"

definition valid_date :: "date_time \<Rightarrow> bool" where
  "valid_date d = (1 \<le> dt_year d \<and> 1 \<le> dt_month d \<and> dt_month d \<le> 12 \<and> 1 \<le> dt_day d
                   \<and> dt_day d \<le> days_in_month (dt_year d) (dt_month d) \<and> dt_hour d < 24
                   \<and> dt_minute d < 60 \<and> dt_second d < 60 \<and> dt_nanosecond d < 1000000000)"

definition next_day :: "date_time \<Rightarrow> date_time" where
  "next_day d =
     (if dt_day d < days_in_month (dt_year d) (dt_month d) then d\<lparr>dt_day := dt_day d + 1\<rparr>
      else if dt_month d < 12 then d\<lparr>dt_month := dt_month d + 1, dt_day := 1\<rparr>
      else d\<lparr>dt_year := dt_year d + 1, dt_month := 1, dt_day := 1\<rparr>)"

text \<open>
  The day number of a date, counted from 1 January of year 1 as \<open>datetime.toordinal\<close>
  counts it, in closed form: the days before the year, the days before the month (a table,
  and one more after February in a year of 366 days) and the day of the month.
\<close>

definition days_before_year :: "nat \<Rightarrow> nat" where
  "days_before_year y = 365 * (y - 1) + (y - 1) div 4 - (y - 1) div 100 + (y - 1) div 400"

definition year_length :: "nat \<Rightarrow> nat" where
  "year_length y = days_before_year (Suc y) - days_before_year y"

definition month_offsets :: "nat list" where
  "month_offsets = [0, 31, 59, 90, 120, 151, 181, 212, 243, 273, 304, 334, 365]"

definition days_before_month :: "nat \<Rightarrow> nat \<Rightarrow> nat" where
  "days_before_month y m =
     month_offsets ! (m - 1) + (if 2 < m \<and> year_length y = 366 then 1 else 0)"

definition ordinal_ymd :: "nat \<Rightarrow> nat \<Rightarrow> nat \<Rightarrow> nat" where
  "ordinal_ymd y m d = days_before_year y + days_before_month y m + d"

definition ordinal :: "date_time \<Rightarrow> nat" where
  "ordinal d = ordinal_ymd (dt_year d) (dt_month d) (dt_day d)"

text \<open>
  The value a \<open>Timestamp\<close> holds: the nanoseconds since 1970-01-01 00:00 (day number
  719163) in a signed 64-bit integer, whose largest value is the timestamp
  2262-04-11 23:47:16.854775807.
\<close>

definition ns_per_day :: int where
  "ns_per_day = 86400000000000"

definition int64_max :: int where
  "int64_max = 9223372036854775807"

definition time_ns :: "date_time \<Rightarrow> int" where
  "time_ns d =
     int (((dt_hour d * 60 + dt_minute d) * 60 + dt_second d) * 1000000000 + dt_nanosecond d)"

definition ts_value :: "date_time \<Rightarrow> int" where
  "ts_value d = (int (ordinal d) - 719163) * ns_per_day + time_ns d"

text \<open>
  \<open>timestamp + timedelta(days=n)\<close>. Python refuses a \<open>timedelta\<close> of more than 999999999
  days; pandas turns the \<open>timedelta\<close> into nanoseconds and adds them to the value, and
  raises when either does not fit 64 bits. Otherwise the result is \<open>n\<close> calendar days on,
  at the same time of day.
\<close>

definition add_days :: "date_time \<Rightarrow> nat \<Rightarrow> error + date_time" where
  "add_days d n =
     (if 999999999 < n then Inl OverflowError
      else if int64_max < int n * ns_per_day then Inl OutOfBoundsTimedelta
      else if int64_max < ts_value d + int n * ns_per_day then Inl OutOfBoundsDatetime
      else Inr ((next_day ^^ n) d))"

text \<open>\<open>.dayofyear\<close>.\<close>

definition dayofyear :: "date_time \<Rightarrow> nat" where
  "dayofyear d = sum_list (map (days_in_month (dt_year d)) [1..<dt_month d]) + dt_day d"

text \<open>
  \<open>strftime('%Y-%m-%d')\<close>: zero-padded decimal fields of width 4, 2 and 2. A timestamp
  has a year below 2263, so four digits hold it.
\<close>

primrec digits :: "nat \<Rightarrow> nat \<Rightarrow> string" where
  "digits 0 n = []"
| "digits (Suc w) n = digits w (n div 10) @ [char_of (48 + n mod 10)]"

definition strftime_ymd :: "date_time \<Rightarrow> string" where
  "strftime_ymd d = digits 4 (dt_year d) @ ''-'' @ digits 2 (dt_month d) @ ''-'' @ digits 2 (dt_day d)"

subsection \<open>Observations and features\<close>

text \<open>
  An observation dictionary. \<open>timestamp\<close>, \<open>temperature\<close> and \<open>humidity\<close> are read with
  \<open>df[...]\<close> and are taken as present; \<open>pressure\<close> is read with \<open>df.get\<close> and may be
  missing (\<open>None\<close>).
\<close>

record observation =
  o_timestamp :: date_time
  o_temperature :: rat
  o_humidity :: rat
  o_pressure :: "rat option"

record features =
  day_of_year :: nat
  month :: nat
  day :: nat
  hour :: nat
  temp_rolling_avg :: "rat option"
  humidity_rolling_avg :: "rat option"
  pressure_rolling_avg :: "rat option"

text \<open>
  \<open>Series.rolling(window=w, min_periods=1).mean()\<close>: a window of the last \<open>w\<close> cells slides
  over the column; each result is the mean of the cells of the window that are not NaN, and
  NaN when there is none.
\<close>

definition nan_mean :: "rat option list \<Rightarrow> rat option" where
  "nan_mean cells =
     (let vs = map the (filter (\<lambda>c. c \<noteq> None) cells)
      in if vs = [] then None else Some (sum_list vs / of_nat (length vs)))"

fun rolling_loop :: "nat \<Rightarrow> rat option list \<Rightarrow> rat option list \<Rightarrow> rat option list" where
  "rolling_loop w buf [] = []"
| "rolling_loop w buf (x # xs) =
     (let grown = buf @ [x]; buf' = drop (length grown - w) grown
      in nan_mean buf' # rolling_loop w buf' xs)"

definition rolling_mean :: "nat \<Rightarrow> rat option list \<Rightarrow> rat option list" where
  "rolling_mean w col = rolling_loop w [] col"

text \<open>
  \<open>df.get('pressure', pd.Series([1013] * len(df)))\<close>: the frame has a \<open>pressure\<close> column
  as soon as one observation has the key (the others are NaN there); the default column is
  used only when no observation has it.
\<close>

definition pressure_column :: "observation list \<Rightarrow> rat option list" where
  "pressure_column hist =
     (if list_ex (\<lambda>ob. o_pressure ob \<noteq> None) hist then map o_pressure hist
      else map (\<lambda>ob. Some 1013) hist)"

definition make_row :: "date_time \<Rightarrow> rat option \<Rightarrow> rat option \<Rightarrow> rat option \<Rightarrow> features" where
  "make_row ts t h p =
     \<lparr> day_of_year = dayofyear ts, month = dt_month ts, day = dt_day ts, hour = dt_hour ts,
       temp_rolling_avg = t, humidity_rolling_avg = h, pressure_rolling_avg = p \<rparr>"

text \<open>
  \<open>prepare_features\<close> (lines 27-54). An empty list gives a frame without columns, and
  \<open>df['timestamp']\<close> raises \<open>KeyError\<close>.
\<close>

definition prepare_features :: "observation list \<Rightarrow> error + (features list \<times> rat list)" where
  "prepare_features hist =
     (if hist = [] then Inl KeyError
      else
        let temp = map (\<lambda>ob. Some (o_temperature ob)) hist;
            hum = map (\<lambda>ob. Some (o_humidity ob)) hist;
            pres = pressure_column hist;
            t_avg = (if length hist > 5 then rolling_mean 5 temp else temp);
            h_avg = (if length hist > 5 then rolling_mean 5 hum else hum);
            p_avg = (if length hist > 5 then rolling_mean 5 pres else pres)
        in Inr (map (\<lambda>i. make_row (o_timestamp (hist ! i)) (t_avg ! i) (h_avg ! i) (p_avg ! i))
                  [0..<length hist],
                map o_temperature hist))"

subsection \<open>The estimators of scikit-learn\<close>

text \<open>
  \<open>StandardScaler\<close> and \<open>RandomForestRegressor\<close> are library code: their fitted states
  (\<open>'s\<close>, \<open>'m\<close>), the scaled matrix (\<open>'x\<close>) and their four operations are parameters.
  What the code itself decides is whether an estimator has been fitted: using an unfitted
  one raises \<open>NotFittedError\<close>.
\<close>

record ('s, 'm, 'x) sklearn =
  fit_transform :: "features list \<Rightarrow> error + ('s \<times> 'x)"
  transform :: "'s \<Rightarrow> features list \<Rightarrow> error + 'x"
  fit :: "'x \<Rightarrow> rat list \<Rightarrow> error + 'm"
  predict_rows :: "'m \<Rightarrow> 'x \<Rightarrow> error + rat list"

datatype 'a estimator = Unfitted | Fitted 'a

record ('s, 'm) predictor =
  p_model :: "'m estimator"
  p_scaler :: "'s estimator"

text \<open>
  The file \<open>models/weather_trend_model.pkl\<close>: \<open>None\<close> when it does not exist, else the
  estimator that \<open>joblib.dump\<close> wrote.
\<close>

type_synonym 'm disk = "'m estimator option"

text \<open>\<open>__init__\<close> with \<open>load_or_create_model\<close> (lines 11-25).\<close>

definition new_predictor :: "'m disk \<Rightarrow> ('s, 'm) predictor" where
  "new_predictor file =
     \<lparr> p_model = (case file of Some m \<Rightarrow> m | None \<Rightarrow> Unfitted), p_scaler = Unfitted \<rparr>"

text \<open>
  \<open>train\<close> (lines 56-72) returns its result with the new predictor and the new file. An
  exception keeps the changes made before it.
\<close>

definition train ::
  "('s, 'm, 'x) sklearn \<Rightarrow> observation list \<Rightarrow> ('s, 'm) predictor \<times> 'm disk
     \<Rightarrow> (error + bool) \<times> ('s, 'm) predictor \<times> 'm disk" where
  "train lib hist st =
     (let (p, file) = st in
      if length hist < 10 then (Inr False, p, file)
      else case prepare_features hist of
        Inl e \<Rightarrow> (Inl e, p, file)
      | Inr (X, y) \<Rightarrow>
          (case fit_transform lib X of
             Inl e \<Rightarrow> (Inl e, p, file)
           | Inr (s, X_scaled) \<Rightarrow>
               (case fit lib X_scaled y of
                  Inl e \<Rightarrow> (Inl e, p\<lparr>p_scaler := Fitted s\<rparr>, file)
                | Inr m \<Rightarrow>
                    (Inr True, p\<lparr>p_scaler := Fitted s, p_model := Fitted m\<rparr>, Some (Fitted m)))))"

record prediction =
  date :: string
  predicted_temperature :: rat

text \<open>
  \<open>predict\<close> (lines 74-120); \<open>Inr None\<close> is the returned \<open>None\<close>. \<open>range(1, k + 1)\<close> is
  empty for \<open>k \<le> 0\<close>.
\<close>

fun dates_from :: "date_time \<Rightarrow> nat \<Rightarrow> nat \<Rightarrow> error + date_time list" where
  "dates_from d i 0 = Inr []"
| "dates_from d i (Suc c) =
     (case add_days d i of
        Inl e \<Rightarrow> Inl e
      | Inr x \<Rightarrow> (case dates_from d (Suc i) c of Inl e \<Rightarrow> Inl e | Inr xs \<Rightarrow> Inr (x # xs)))"

definition future_dates :: "date_time \<Rightarrow> int \<Rightarrow> error + date_time list" where
  "future_dates last_timestamp k = dates_from last_timestamp 1 (nat k)"

definition predict ::
  "('s, 'm, 'x) sklearn \<Rightarrow> ('s, 'm) predictor \<Rightarrow> observation list \<Rightarrow> int
     \<Rightarrow> error + prediction list option" where
  "predict lib p hist days_to_predict =
     (if length hist < 5 then Inr None
      else case prepare_features hist of
        Inl e \<Rightarrow> Inl e
      | Inr (X, y) \<Rightarrow>
          (case future_dates (o_timestamp (last hist)) days_to_predict of
             Inl e \<Rightarrow> Inl e
           | Inr dates \<Rightarrow>
               (let future_X = map (\<lambda>d. make_row d (temp_rolling_avg (last X))
                                       (humidity_rolling_avg (last X))
                                       (pressure_rolling_avg (last X))) dates
                in case p_scaler p of
                     Unfitted \<Rightarrow> Inl NotFittedError
                   | Fitted s \<Rightarrow>
                       (case transform lib s future_X of
                          Inl e \<Rightarrow> Inl e
                        | Inr future_X_scaled \<Rightarrow>
                            (case p_model p of
                               Unfitted \<Rightarrow> Inl NotFittedError
                             | Fitted m \<Rightarrow>
                                 (case predict_rows lib m future_X_scaled of
                                    Inl e \<Rightarrow> Inl e
                                  | Inr predictions \<Rightarrow>
                                      if length predictions < length dates then Inl IndexError
                                      else Inr (Some (map (\<lambda>i.
                                             \<lparr> date = strftime_ymd (dates ! i),
                                               predicted_temperature = predictions ! i \<rparr>)
                                           [0..<length dates]))))))))"

subsection \<open>The date text as the specification words it\<close>

text \<open>
  Reading a text of the form YYYY-MM-DD: ten characters, a hyphen in fifth and in eighth
  place, decimal digits elsewhere; the result is the year, the month and the day.
\<close>

definition is_digit :: "char \<Rightarrow> bool" where
  "is_digit c = (48 \<le> (of_char c :: nat) \<and> (of_char c :: nat) \<le> 57)"

definition read_decimal :: "string \<Rightarrow> nat" where
  "read_decimal s = foldl (\<lambda>a c. 10 * a + ((of_char c :: nat) - 48)) 0 s"

definition parse_ymd :: "string \<Rightarrow> (nat \<times> nat \<times> nat) option" where
  "parse_ymd s =
     (if length s = 10 \<and> s ! 4 = CHR ''-'' \<and> s ! 7 = CHR ''-''
         \<and> list_all is_digit (take 4 s @ take 2 (drop 5 s) @ drop 8 s)
      then Some (read_decimal (take 4 s), read_decimal (take 2 (drop 5 s)),
                 read_decimal (drop 8 s))
      else None)"

text \<open>
  A calendar date: a month from 1 to 12 and a day of that month, whose length is what the
  table of the day numbers gives.
\<close>

definition calendar_date :: "nat \<Rightarrow> nat \<Rightarrow> nat \<Rightarrow> bool" where
  "calendar_date y m d =
     (1 \<le> y \<and> 1 \<le> m \<and> m \<le> 12 \<and> 1 \<le> d
      \<and> days_before_month y m + d \<le> days_before_month y (Suc m))"

subsection \<open>The window mean as the specification words it\<close>

text \<open>
  The arithmetic mean of \<open>xs\<close> over the indices \<open>max(0, i - 4) .. i\<close>; on \<open>nat\<close>,
  \<open>i - 4\<close> is already \<open>0\<close> for \<open>i < 4\<close>.
\<close>

definition spec_window_mean :: "rat list \<Rightarrow> nat \<Rightarrow> rat" where
  "spec_window_mean xs i = (\<Sum>j = i - 4..i. xs ! j) / of_nat (Suc i - (i - 4))"

text \<open>The pressure of an observation, or 1013 when it has none.\<close>

definition pressure_or_default :: "observation \<Rightarrow> rat" where
  "pressure_or_default ob = get_or (o_pressure ob) 1013"

subsection \<open>Concrete inputs\<close>

text \<open>
  A small instance of the library for running the code on concrete inputs: a scaler that
  leaves the rows as they are and a regressor that predicts the mean of its training targets.
\<close>

definition mean_lib :: "(unit, rat, features list) sklearn" where
  "mean_lib =
     \<lparr> fit_transform = (\<lambda>X. Inr ((), X)),
       transform = (\<lambda>s X. Inr X),
       fit = (\<lambda>X y. Inr (sum_list y / of_nat (length y))),
       predict_rows = (\<lambda>m X. Inr (map (\<lambda>r. m) X)) \<rparr>"

text \<open>An observation of day \<open>d\<close> of February 2024, at noon.\<close>

definition obs :: "nat \<Rightarrow> rat \<Rightarrow> rat \<Rightarrow> rat option \<Rightarrow> observation" where
  "obs d t h p =
     \<lparr> o_timestamp = \<lparr> dt_year = 2024, dt_month = 2, dt_day = d, dt_hour = 12, dt_minute = 0,
                       dt_second = 0, dt_nanosecond = 0 \<rparr>,
       o_temperature = t, o_humidity = h, o_pressure = p \<rparr>"

text \<open>Five observations with the temperatures 10, 20, 10, 20, 10, none with a pressure.\<close>

definition five_observations :: "observation list" where
  "five_observations =
     [obs 1 10 50 None, obs 2 20 50 None, obs 3 10 50 None, obs 4 20 50 None, obs 5 10 50 None]"

text \<open>Ten observations from 20 to 29 February 2024, all with a pressure.\<close>

definition ten_observations :: "observation list" where
  "ten_observations =
     [obs 20 10 50 (Some 1000), obs 21 12 52 (Some 1001), obs 22 14 54 (Some 1002),
      obs 23 16 56 (Some 1003), obs 24 18 58 (Some 1004), obs 25 20 60 (Some 1005),
      obs 26 22 62 (Some 1006), obs 27 24 64 (Some 1007), obs 28 26 66 (Some 1008),
      obs 29 28 68 (Some 1009)]"

text \<open>Two observations of which only the second has a pressure.\<close>

definition mixed_observations :: "observation list" where
  "mixed_observations = [obs 1 10 50 None, obs 2 12 55 (Some 1000)]"

text \<open>Six observations of which only the first has no pressure.\<close>

definition six_observations :: "observation list" where
  "six_observations =
     [obs 1 10 50 None, obs 2 12 52 (Some 1000), obs 3 14 54 (Some 1000),
      obs 4 16 56 (Some 1000), obs 5 18 58 (Some 1000), obs 6 20 60 (Some 1000)]"

text \<open>The feature rows of a result of \<open>prepare_features\<close>.\<close>

definition rows_of :: "error + (features list \<times> rat list) \<Rightarrow> features list" where
  "rows_of r = (case r of Inl e \<Rightarrow> [] | Inr (X, y) \<Rightarrow> X)"

section \<open>Properties of the alert system\<close>

lemma analyze_loop_concat:
  "analyze_loop str_of st acc fs = acc @ concat (map (point_alerts str_of st) fs)"
  by (induction fs arbitrary: acc) simp_all

lemma analyze_forecast_concat:
  "analyze_forecast str_of st fs = concat (map (point_alerts str_of st) fs)"
  by (simp add: analyze_forecast_def analyze_loop_concat)

lemma storm_scan_cases:
  "storm_scan ks dat d =
     (if \<exists>k \<in> set ks. contains k d then [storm_alert dat d] else [])"
  by (induction ks) simp_all






section \<open>Properties of the trend predictor\<close>

subsection \<open>The calendar\<close>

lemma leap_arith:
  fixes n q4 q100 q400 a b c :: nat
  assumes "q100 \<le> q4" and "b \<le> a"
  shows "365 * Suc n + (q4 + a) - (q100 + b) + (q400 + c)
         = 365 * n + q4 - q100 + q400 + (365 + a - b + c)"
  using assms by simp

lemma div_Suc_indicator:
  "Suc n div k = n div k + (if Suc n mod k = 0 then 1 else 0)"
  by (simp add: div_Suc)

lemma mod_0_trans:
  fixes n :: nat
  assumes "n mod k = 0" and "j dvd k"
  shows "n mod j = 0"
proof -
  from assms(1) have "k dvd n" by (simp add: mod_eq_0_iff_dvd)
  with assms(2) have "j dvd n" by (rule dvd_trans)
  then show ?thesis by (simp add: mod_eq_0_iff_dvd)
qed

lemma days_before_year_Suc:
  assumes "1 \<le> y"
  shows "days_before_year (Suc y) = days_before_year y + (if is_leap y then 366 else 365)"
proof -
  obtain n where y: "y = Suc n" using assms by (cases y) auto
  define a :: nat where "a = (if Suc n mod 4 = 0 then 1 else 0)"
  define b :: nat where "b = (if Suc n mod 100 = 0 then 1 else 0)"
  define c :: nat where "c = (if Suc n mod 400 = 0 then 1 else 0)"
  have A: "Suc n div 4 = n div 4 + a" unfolding a_def by (rule div_Suc_indicator)
  have B: "Suc n div 100 = n div 100 + b" unfolding b_def by (rule div_Suc_indicator)
  have C: "Suc n div 400 = n div 400 + c" unfolding c_def by (rule div_Suc_indicator)
  have le: "n div 100 \<le> n div 4" by (rule div_le_mono2) simp_all
  have cb: "Suc n mod 100 = 0" if "Suc n mod 400 = 0"
    using that by (rule mod_0_trans) simp
  have ba: "Suc n mod 4 = 0" if "Suc n mod 100 = 0"
    using that by (rule mod_0_trans) simp
  have "b \<le> a" using ba by (simp add: a_def b_def)
  have leap: "(if is_leap (Suc n) then 366 else 365) = 365 + a - b + c"
    using ba cb by (simp add: is_leap_def a_def b_def c_def)
  have "days_before_year (Suc (Suc n))
        = 365 * Suc n + (n div 4 + a) - (n div 100 + b) + (n div 400 + c)"
    unfolding days_before_year_def diff_Suc_1 A B C ..
  also have "\<dots> = 365 * n + n div 4 - n div 100 + n div 400 + (365 + a - b + c)"
    using le \<open>b \<le> a\<close> by (rule leap_arith)
  also have "365 * n + n div 4 - n div 100 + n div 400 = days_before_year (Suc n)"
    unfolding days_before_year_def diff_Suc_1 ..
  finally show ?thesis unfolding y leap .
qed

lemma year_length_leap: "1 \<le> y \<Longrightarrow> year_length y = (if is_leap y then 366 else 365)"
  by (simp add: year_length_def days_before_year_Suc)

lemma days_before_month_Suc:
  assumes "1 \<le> y" and "1 \<le> m" and "m \<le> 12"
  shows "days_before_month y (Suc m) = days_before_month y m + days_in_month y m"
proof -
  from assms(2,3) have
    "m = 1 \<or> m = 2 \<or> m = 3 \<or> m = 4 \<or> m = 5 \<or> m = 6 \<or> m = 7 \<or> m = 8 \<or> m = 9
       \<or> m = 10 \<or> m = 11 \<or> m = 12"
    by arith
  then show ?thesis
    using year_length_leap [OF assms(1)]
    by (elim disjE) (simp_all add: days_before_month_def month_offsets_def days_in_month_def)
qed

lemma days_before_month_13: "1 \<le> y \<Longrightarrow> days_before_month y 13 = year_length y"
  by (simp add: days_before_month_def month_offsets_def year_length_leap)

lemma ordinal_next_day:
  assumes "valid_date d"
  shows "ordinal (next_day d) = Suc (ordinal d)"
proof -
  from assms have y: "1 \<le> dt_year d" and m: "1 \<le> dt_month d" "dt_month d \<le> 12"
    and dd: "dt_day d \<le> days_in_month (dt_year d) (dt_month d)"
    by (simp_all add: valid_date_def)
  note step = days_before_month_Suc [OF y m]
  show ?thesis
  proof (cases "dt_day d < days_in_month (dt_year d) (dt_month d)")
    case True
    then show ?thesis by (simp add: next_day_def ordinal_def ordinal_ymd_def)
  next
    case False
    with dd have last: "dt_day d = days_in_month (dt_year d) (dt_month d)" by simp
    show ?thesis
    proof (cases "dt_month d < 12")
      case True
      with False step last show ?thesis
        by (simp add: next_day_def ordinal_def ordinal_ymd_def)
    next
      case False
      with m have m12: "dt_month d = 12" by simp
      have e: "days_before_month (dt_year d) 12 + dt_day d = year_length (dt_year d)"
        using step last days_before_month_13 [OF y] by (simp add: m12)
      have j: "days_before_month (Suc (dt_year d)) 1 = 0"
        by (simp add: days_before_month_def month_offsets_def)
      have yl: "days_before_year (Suc (dt_year d)) = days_before_year (dt_year d) + year_length (dt_year d)"
        using days_before_year_Suc [OF y] year_length_leap [OF y] by simp
      from last m12 e j yl show ?thesis
        by (simp add: next_day_def ordinal_def ordinal_ymd_def days_in_month_def)
    qed
  qed
qed

lemma valid_next_day: "valid_date d \<Longrightarrow> valid_date (next_day d)"
  by (auto simp: valid_date_def next_day_def days_in_month_def)

lemma time_next_day: "time_ns (next_day d) = time_ns d"
  by (simp add: next_day_def time_ns_def)

lemma valid_funpow: "valid_date d \<Longrightarrow> valid_date ((next_day ^^ n) d)"
  by (induction n) (simp_all add: valid_next_day)

lemma ordinal_funpow: "valid_date d \<Longrightarrow> ordinal ((next_day ^^ n) d) = ordinal d + n"
  by (induction n) (simp_all add: ordinal_next_day valid_funpow)

lemma time_funpow: "time_ns ((next_day ^^ n) d) = time_ns d"
  by (induction n) (simp_all add: time_next_day)

lemma ts_value_funpow:
  "valid_date d \<Longrightarrow> ts_value ((next_day ^^ n) d) = ts_value d + int n * ns_per_day"
  by (simp add: ts_value_def ordinal_funpow time_funpow algebra_simps)

lemma valid_calendar_date:
  assumes "valid_date d"
  shows "calendar_date (dt_year d) (dt_month d) (dt_day d)"
proof -
  from assms have y: "1 \<le> dt_year d" and m: "1 \<le> dt_month d" "dt_month d \<le> 12"
    by (simp_all add: valid_date_def)
  from assms days_before_month_Suc [OF y m] show ?thesis
    by (simp add: calendar_date_def valid_date_def)
qed

subsection \<open>The date text\<close>

lemma length_digits: "length (digits w n) = w"
  by (induction w arbitrary: n) simp_all

lemma of_char_digit: "(of_char (char_of (48 + n mod 10 :: nat)) :: nat) = 48 + n mod 10"
proof -
  have "n mod 10 < 10" by simp
  then have "48 + n mod 10 < 256" by linarith
  then show ?thesis by (simp add: of_char_of)
qed

lemma digits_is_digit: "list_all is_digit (digits w n)"
  by (induction w arbitrary: n) (simp_all add: is_digit_def of_char_digit)

lemma read_decimal_snoc:
  "read_decimal (s @ [c]) = 10 * read_decimal s + ((of_char c :: nat) - 48)"
  by (simp add: read_decimal_def)

lemma read_decimal_digits: "read_decimal (digits w n) = n mod 10 ^ w"
proof (induction w arbitrary: n)
  case 0
  show ?case by (simp add: read_decimal_def)
next
  case (Suc w)
  have "read_decimal (digits (Suc w) n) = 10 * (n div 10 mod 10 ^ w) + n mod 10"
    unfolding digits.simps read_decimal_snoc Suc of_char_digit by simp
  also have "\<dots> = n mod (10 * 10 ^ w)" by (simp add: mod_mult2_eq)
  finally show ?case by simp
qed

lemma parse_ymd_fields:
  assumes "length a = 4" and "length b = 2" and "length c = 2"
    and "list_all is_digit a" and "list_all is_digit b" and "list_all is_digit c"
  shows "parse_ymd (a @ CHR ''-'' # b @ CHR ''-'' # c)
         = Some (read_decimal a, read_decimal b, read_decimal c)"
  using assms by (simp add: parse_ymd_def nth_append)

lemma parse_strftime:
  assumes "dt_year d < 10000" and "dt_month d < 100" and "dt_day d < 100"
  shows "parse_ymd (strftime_ymd d) = Some (dt_year d, dt_month d, dt_day d)"
proof -
  have "parse_ymd (digits 4 (dt_year d) @ CHR ''-'' # digits 2 (dt_month d) @ CHR ''-'' #
                   digits 2 (dt_day d))
        = Some (read_decimal (digits 4 (dt_year d)), read_decimal (digits 2 (dt_month d)),
                read_decimal (digits 2 (dt_day d)))"
    by (rule parse_ymd_fields) (simp_all only: length_digits digits_is_digit)
  with assms show ?thesis by (simp add: strftime_ymd_def read_decimal_digits)
qed

lemma days_before_year_ge: "365 * (y - 1) \<le> days_before_year y"
proof -
  have "(y - 1) div 100 \<le> (y - 1) div 4" by (rule div_le_mono2) simp_all
  then show ?thesis unfolding days_before_year_def by linarith
qed

lemma time_ns_nonneg: "0 \<le> time_ns d"
  by (simp add: time_ns_def)

lemma days_in_range:
  fixes x :: int
  assumes "x * ns_per_day \<le> int64_max"
  shows "x \<le> 106751"
proof (rule ccontr)
  assume "\<not> x \<le> 106751"
  then have "106752 \<le> x" by simp
  then have "106752 * ns_per_day \<le> x * ns_per_day"
    by (rule mult_right_mono) (simp add: ns_per_day_def)
  with assms show False by (simp add: ns_per_day_def int64_max_def)
qed

lemma year_in_range:
  assumes "valid_date d" and "ts_value d \<le> int64_max"
  shows "dt_year d < 10000"
proof -
  from assms(2) time_ns_nonneg [of d]
  have "(int (ordinal d) - 719163) * ns_per_day \<le> int64_max"
    unfolding ts_value_def by linarith
  then have "int (ordinal d) - 719163 \<le> 106751" by (rule days_in_range)
  then have o: "ordinal d \<le> 825914" by linarith
  have "days_before_year (dt_year d) \<le> ordinal d"
    by (simp add: ordinal_def ordinal_ymd_def)
  with days_before_year_ge [of "dt_year d"] o have "365 * (dt_year d - 1) \<le> 825914"
    by linarith
  then show ?thesis by linarith
qed

lemma add_days_ok:
  assumes "n \<le> 106751" and "ts_value d + int n * ns_per_day \<le> int64_max"
  shows "add_days d n = Inr ((next_day ^^ n) d)"
proof -
  from assms(1) have "int n * ns_per_day \<le> int64_max"
    by (simp add: ns_per_day_def int64_max_def)
  with assms show ?thesis by (simp add: add_days_def)
qed

lemma dates_from_ok:
  assumes "i + c \<le> 106752"
    and "ts_value d + int (i + c - 1) * ns_per_day \<le> int64_max"
  shows "dates_from d i c = Inr (map (\<lambda>j. (next_day ^^ j) d) [i..<i + c])"
  using assms
proof (induction c arbitrary: i)
  case 0
  show ?case by simp
next
  case (Suc c)
  have "int i * ns_per_day \<le> int (i + Suc c - 1) * ns_per_day"
    by (rule mult_right_mono) (simp_all add: ns_per_day_def)
  with Suc.prems(2) have t: "ts_value d + int i * ns_per_day \<le> int64_max" by linarith
  from Suc.prems(1) have "i \<le> 106751" by simp
  from this t have a: "add_days d i = Inr ((next_day ^^ i) d)" by (rule add_days_ok)
  have ih: "dates_from d (Suc i) c = Inr (map (\<lambda>j. (next_day ^^ j) d) [Suc i..<Suc i + c])"
    using Suc.prems by (intro Suc.IH) simp_all
  have u: "[i..<i + Suc c] = i # [Suc i..<Suc i + c]"
    by (simp add: upt_conv_Cons del: upt_Suc)
  show ?case unfolding dates_from.simps a ih u by simp
qed

lemma future_dates_ok:
  assumes "1 \<le> k" and "k \<le> 106751" and "ts_value d + k * ns_per_day \<le> int64_max"
  shows "future_dates d k = Inr (map (\<lambda>j. (next_day ^^ j) d) [1..<Suc (nat k)])"
proof -
  have e: "int (1 + nat k - 1) = k" using assms(1) by simp
  have "dates_from d 1 (nat k) = Inr (map (\<lambda>j. (next_day ^^ j) d) [1..<1 + nat k])"
  proof (rule dates_from_ok)
    show "1 + nat k \<le> 106752" using assms(2) by simp
    show "ts_value d + int (1 + nat k - 1) * ns_per_day \<le> int64_max"
      unfolding e by (rule assms(3))
  qed
  then show ?thesis by (simp add: future_dates_def)
qed

lemma dates_from_overflow:
  assumes "i \<le> j" and "j < i + c" and "j \<le> 106751"
    and "int64_max < ts_value d + int j * ns_per_day"
  shows "dates_from d i c = Inl OutOfBoundsDatetime"
  using assms
proof (induction c arbitrary: i)
  case 0
  then show ?case by simp
next
  case (Suc c)
  from Suc.prems(1,3) have i: "i \<le> 106751" by simp
  then have td: "\<not> int64_max < int i * ns_per_day"
    by (simp add: ns_per_day_def int64_max_def)
  show ?case
  proof (cases "int64_max < ts_value d + int i * ns_per_day")
    case True
    with i td show ?thesis by (simp add: add_days_def)
  next
    case False
    with i td have a: "add_days d i = Inr ((next_day ^^ i) d)" by (simp add: add_days_def)
    from False Suc.prems(4) have "i \<noteq> j" by auto
    with Suc.prems have "dates_from d (Suc i) c = Inl OutOfBoundsDatetime"
      by (intro Suc.IH) simp_all
    with a show ?thesis by (simp del: funpow.simps)
  qed
qed

lemma days_in_month_le: "days_in_month y mo \<le> 31"
  by (simp add: days_in_month_def)

lemma date_text_of_day:
  assumes valid: "valid_date d" and n: "ts_value d + int n * ns_per_day \<le> int64_max"
  shows "parse_ymd (strftime_ymd ((next_day ^^ n) d))
           = Some (dt_year ((next_day ^^ n) d), dt_month ((next_day ^^ n) d),
                   dt_day ((next_day ^^ n) d))
       \<and> calendar_date (dt_year ((next_day ^^ n) d)) (dt_month ((next_day ^^ n) d))
           (dt_day ((next_day ^^ n) d))
       \<and> ordinal_ymd (dt_year ((next_day ^^ n) d)) (dt_month ((next_day ^^ n) d))
           (dt_day ((next_day ^^ n) d)) = ordinal d + n"
proof -
  define e where "e = (next_day ^^ n) d"
  have v: "valid_date e" unfolding e_def by (rule valid_funpow [OF valid])
  have "ts_value e = ts_value d + int n * ns_per_day"
    unfolding e_def by (rule ts_value_funpow [OF valid])
  with n have "ts_value e \<le> int64_max" by simp
  with v have y: "dt_year e < 10000" by (rule year_in_range)
  from v have mo: "dt_month e < 100" by (simp add: valid_date_def)
  from v have "dt_day e \<le> days_in_month (dt_year e) (dt_month e)" by (simp add: valid_date_def)
  with days_in_month_le [of "dt_year e" "dt_month e"] have dd: "dt_day e < 100" by simp
  have p: "parse_ymd (strftime_ymd e) = Some (dt_year e, dt_month e, dt_day e)"
    using y mo dd by (rule parse_strftime)
  have c: "calendar_date (dt_year e) (dt_month e) (dt_day e)"
    using v by (rule valid_calendar_date)
  have "ordinal e = ordinal d + n" unfolding e_def by (rule ordinal_funpow [OF valid])
  then have o: "ordinal_ymd (dt_year e) (dt_month e) (dt_day e) = ordinal d + n"
    by (simp add: ordinal_def)
  from p c o show ?thesis unfolding e_def by simp
qed

subsection \<open>The rolling mean\<close>

lemma drop_last_window:
  "drop (length (drop (length b - w) b @ [x]) - w) (drop (length b - w) b @ [x])
     = drop (length (b @ [x]) - w) (b @ [x])"
proof (cases "length b \<le> w")
  case True
  then show ?thesis by simp
next
  case False
  then have "w < length b" by simp
  then show ?thesis by (simp add: Suc_diff_le)
qed

lemma rolling_loop_nth:
  assumes "i < length xs" and "buf = drop (length b - w) b"
  shows "rolling_loop w buf xs ! i
       = nan_mean (drop (length (b @ take (Suc i) xs) - w) (b @ take (Suc i) xs))"
  using assms
proof (induction xs arbitrary: b buf i)
  case Nil
  then show ?case by simp
next
  case (Cons x xs)
  define buf' where "buf' = drop (length (buf @ [x]) - w) (buf @ [x])"
  have b': "buf' = drop (length (b @ [x]) - w) (b @ [x])"
    unfolding buf'_def Cons.prems(2) by (rule drop_last_window)
  have unf: "rolling_loop w buf (x # xs) = nan_mean buf' # rolling_loop w buf' xs"
    by (simp add: Let_def buf'_def)
  show ?case
  proof (cases i)
    case 0
    have t: "b @ take (Suc 0) (x # xs) = b @ [x]" by simp
    show ?thesis unfolding 0 unf t nth_Cons_0 b' ..
  next
    case (Suc j)
    with Cons.prems(1) have j: "j < length xs" by simp
    have t: "b @ take (Suc (Suc j)) (x # xs) = (b @ [x]) @ take (Suc j) xs" by simp
    show ?thesis unfolding Suc unf t nth_Cons_Suc
      by (rule Cons.IH [OF j b'])
  qed
qed

lemma length_rolling_loop: "length (rolling_loop w buf xs) = length xs"
  by (induction xs arbitrary: buf) (simp_all add: Let_def)

lemma length_rolling_mean: "length (rolling_mean w xs) = length xs"
  by (simp add: rolling_mean_def length_rolling_loop)

lemma rolling_mean_nth:
  assumes "i < length xs"
  shows "rolling_mean w xs ! i = nan_mean (drop (Suc i - w) (take (Suc i) xs))"
proof -
  have l: "length (take (Suc i) xs) = Suc i" using assms by simp
  have "rolling_loop w [] xs ! i
      = nan_mean (drop (length ([] @ take (Suc i) xs) - w) ([] @ take (Suc i) xs))"
    by (rule rolling_loop_nth [OF assms]) simp
  then show ?thesis
    unfolding rolling_mean_def append_Nil l .
qed

lemma nan_mean_Some:
  "vs \<noteq> [] \<Longrightarrow> nan_mean (map Some vs) = Some (sum_list vs / of_nat (length vs))"
  by (simp add: nan_mean_def filter_map comp_def)

lemma window_as_map:
  assumes "i < length vs"
  shows "drop (Suc i - 5) (take (Suc i) vs) = map ((!) vs) [i - 4..<Suc i]"
proof (rule nth_equalityI)
  show "length (drop (Suc i - 5) (take (Suc i) vs)) = length (map ((!) vs) [i - 4..<Suc i])"
    using assms by (simp del: upt_Suc)
next
  fix k assume "k < length (drop (Suc i - 5) (take (Suc i) vs))"
  then have k: "k < Suc i - (Suc i - 5)" using assms by simp
  then have k': "i - 4 + k < Suc i" by arith
  have e: "Suc i - 5 + k = i - 4 + k" by arith
  show "drop (Suc i - 5) (take (Suc i) vs) ! k = map ((!) vs) [i - 4..<Suc i] ! k"
    using assms k k' e by (simp del: upt_Suc)
qed

lemma rolling_mean_spec:
  assumes "i < length vs"
  shows "rolling_mean 5 (map Some vs) ! i = Some (spec_window_mean vs i)"
proof -
  let ?win = "map ((!) vs) [i - 4..<Suc i]"
  have w: "drop (Suc i - 5) (take (Suc i) (map Some vs)) = map Some ?win"
    unfolding take_map drop_map window_as_map [OF assms] ..
  have ne: "?win \<noteq> []" by (simp del: upt_Suc)
  have s: "sum_list ?win = (\<Sum>j = i - 4..i. vs ! j)"
    by (simp del: upt_Suc add: interv_sum_list_conv_sum_set_nat atLeastLessThanSuc_atLeastAtMost)
  have l: "length ?win = Suc i - (i - 4)" by (simp del: upt_Suc)
  have "rolling_mean 5 (map Some vs) ! i = nan_mean (map Some ?win)"
    using rolling_mean_nth [of i "map Some vs" 5] assms w by simp
  also have "\<dots> = Some (sum_list ?win / of_nat (length ?win))"
    by (rule nan_mean_Some [OF ne])
  finally show ?thesis
    unfolding s l spec_window_mean_def .
qed

lemma prepare_features_long:
  assumes "5 < length hist"
  shows "prepare_features hist =
     Inr (map (\<lambda>i. make_row (o_timestamp (hist ! i))
                     (rolling_mean 5 (map (\<lambda>ob. Some (o_temperature ob)) hist) ! i)
                     (rolling_mean 5 (map (\<lambda>ob. Some (o_humidity ob)) hist) ! i)
                     (rolling_mean 5 (pressure_column hist) ! i)) [0..<length hist],
          map o_temperature hist)"
proof -
  from assms have "hist \<noteq> []" by auto
  with assms show ?thesis by (simp add: prepare_features_def Let_def)
qed

lemma rolling_mean_spec_map:
  "i < length xs \<Longrightarrow>
     rolling_mean 5 (map (Some \<circ> f) xs) ! i = Some (spec_window_mean (map f xs) i)"
  using rolling_mean_spec [of i "map f xs"] by simp

lemma prepare_five:
  "map temp_rolling_avg (rows_of (prepare_features five_observations))
     = [Some 10, Some 20, Some 10, Some 20, Some 10]"
proof -
  have u: "[0..<5] = [0, 1, 2, 3, 4]" by (simp add: upt_rec)
  show ?thesis
    by (simp add: prepare_features_def five_observations_def Let_def rows_of_def u make_row_def
        obs_def)
qed

lemma spec_five: "spec_window_mean (map o_temperature five_observations) 4 = 14"
proof -
  have s: "{0..4::nat} = {0, 1, 2, 3, 4}" by auto
  show ?thesis
    by (simp add: spec_window_mean_def five_observations_def obs_def s)
qed

lemma rolling_mean_first: "xs \<noteq> [] \<Longrightarrow> rolling_mean 5 xs ! 0 = nan_mean [xs ! 0]"
  by (cases xs) (simp_all add: rolling_mean_def Let_def)

lemma rolling_mean_agree:
  assumes "i < length col" and "length col' = length col"
    and "\<forall>j. i - 4 \<le> j \<and> j \<le> i \<longrightarrow> col ! j = col' ! j"
  shows "rolling_mean 5 col ! i = rolling_mean 5 col' ! i"
proof -
  from assms(1,2) have i': "i < length col'" by simp
  have "map ((!) col) [i - 4..<Suc i] = map ((!) col') [i - 4..<Suc i]"
  proof (rule map_cong [OF refl])
    fix j assume "j \<in> set [i - 4..<Suc i]"
    then have "i - 4 \<le> j \<and> j \<le> i" by (simp del: upt_Suc)
    with assms(3) show "col ! j = col' ! j" by simp
  qed
  then show ?thesis
    unfolding rolling_mean_nth [OF assms(1)] rolling_mean_nth [OF i']
      window_as_map [OF assms(1)] window_as_map [OF i']
    by (rule arg_cong)
qed

lemma length_pressure_column: "length (pressure_column hist) = length hist"
  by (simp add: pressure_column_def)

lemma pressure_window:
  assumes "i < length hist"
    and "(\<forall>ob \<in> set hist. o_pressure ob = None)
         \<or> (\<forall>j. i - 4 \<le> j \<and> j \<le> i \<longrightarrow> o_pressure (hist ! j) \<noteq> None)"
  shows "rolling_mean 5 (pressure_column hist) ! i
         = Some (spec_window_mean (map pressure_or_default hist) i)"
proof -
  have "rolling_mean 5 (pressure_column hist) ! i
        = rolling_mean 5 (map Some (map pressure_or_default hist)) ! i"
  proof (rule rolling_mean_agree)
    show "i < length (pressure_column hist)"
      using assms(1) by (simp add: length_pressure_column)
    show "length (map Some (map pressure_or_default hist)) = length (pressure_column hist)"
      by (simp add: length_pressure_column)
    show "\<forall>j. i - 4 \<le> j \<and> j \<le> i \<longrightarrow>
            pressure_column hist ! j = map Some (map pressure_or_default hist) ! j"
    proof (intro allI impI)
      fix j assume w: "i - 4 \<le> j \<and> j \<le> i"
      with assms(1) have j: "j < length hist" by simp
      from assms(2) show "pressure_column hist ! j = map Some (map pressure_or_default hist) ! j"
      proof
        assume none: "\<forall>ob \<in> set hist. o_pressure ob = None"
        then have "\<not> list_ex (\<lambda>ob. o_pressure ob \<noteq> None) hist" by (simp add: list_ex_iff)
        moreover from none j have "o_pressure (hist ! j) = None" by simp
        ultimately show ?thesis
          using j by (simp add: pressure_column_def pressure_or_default_def get_or_def)
      next
        assume all: "\<forall>j. i - 4 \<le> j \<and> j \<le> i \<longrightarrow> o_pressure (hist ! j) \<noteq> None"
        with w have p: "o_pressure (hist ! j) \<noteq> None" by simp
        with j have "list_ex (\<lambda>ob. o_pressure ob \<noteq> None) hist"
          unfolding list_ex_iff using nth_mem by blast
        with p show ?thesis
          using j by (auto simp: pressure_column_def pressure_or_default_def get_or_def)
      qed
    qed
  qed
  also have "\<dots> = Some (spec_window_mean (map pressure_or_default hist) i)"
    by (rule rolling_mean_spec) (simp add: assms(1))
  finally show ?thesis .
qed

lemma nan_mean_one: "nan_mean [c] = c"
  by (cases c) (simp_all add: nan_mean_def)

lemma pressure_column_head:
  "hist \<noteq> [] \<Longrightarrow>
     pressure_column hist ! 0 =
       (if list_ex (\<lambda>ob. o_pressure ob \<noteq> None) hist then o_pressure (hist ! 0) else Some 1013)"
  by (simp add: pressure_column_def)

lemma six_long: "5 < length six_observations" "length six_observations = 6"
  by (simp_all add: six_observations_def)

lemma six_pressure:
  "pressure_column six_observations
     = [None, Some 1000, Some 1000, Some 1000, Some 1000, Some 1000]"
  by (simp add: pressure_column_def six_observations_def obs_def)

lemma six_rolling:
  "rolling_mean 5 [None, Some 1000, Some 1000, Some 1000, Some 1000, Some (1000::rat)] ! 0
     = None"
  "rolling_mean 5 [None, Some 1000, Some 1000, Some 1000, Some 1000, Some (1000::rat)] ! 1
     = Some 1000"
proof -
  let ?col = "[None, Some 1000, Some 1000, Some 1000, Some 1000, Some (1000::rat)]"
  have "rolling_mean 5 ?col ! 0 = nan_mean [?col ! 0]"
    by (rule rolling_mean_first) simp
  then show "rolling_mean 5 ?col ! 0 = None" by (simp add: nan_mean_one)
  have "rolling_mean 5 ?col ! 1 = nan_mean (drop (Suc 1 - 5) (take (Suc 1) ?col))"
    by (rule rolling_mean_nth) simp
  also have "\<dots> = nan_mean [None, Some 1000]" by simp
  also have "\<dots> = Some 1000" by (simp add: nan_mean_def)
  finally show "rolling_mean 5 ?col ! 1 = Some 1000" .
qed

lemma six_rows:
  assumes "i < 6"
  shows "pressure_rolling_avg (rows_of (prepare_features six_observations) ! i)
         = rolling_mean 5 (pressure_column six_observations) ! i"
  using assms
  by (simp add: prepare_features_long [OF six_long(1)] rows_of_def six_long(2) make_row_def
      del: upt_Suc)

lemma six_pressure_features:
  "pressure_rolling_avg (rows_of (prepare_features six_observations) ! 0) = None"
  "pressure_rolling_avg (rows_of (prepare_features six_observations) ! 1) = Some 1000"
proof -
  have "pressure_rolling_avg (rows_of (prepare_features six_observations) ! 0)
        = rolling_mean 5 (pressure_column six_observations) ! 0"
    by (rule six_rows) simp
  then show "pressure_rolling_avg (rows_of (prepare_features six_observations) ! 0) = None"
    unfolding six_pressure six_rolling(1) .
  have "pressure_rolling_avg (rows_of (prepare_features six_observations) ! 1)
        = rolling_mean 5 (pressure_column six_observations) ! 1"
    by (rule six_rows) simp
  then show "pressure_rolling_avg (rows_of (prepare_features six_observations) ! 1) = Some 1000"
    unfolding six_pressure six_rolling(2) .
qed

lemma spec_six:
  "spec_window_mean (map pressure_or_default six_observations) 1 = 2013 / 2"
proof -
  have s: "{0..1::nat} = {0, 1}" by auto
  show ?thesis
    by (simp add: spec_window_mean_def six_observations_def obs_def s pressure_or_default_def
        get_or_def)
qed

lemma five_fifth:
  "temp_rolling_avg (rows_of (prepare_features five_observations) ! 4) = Some 10"
  using arg_cong [OF prepare_five, of "\<lambda>l. l ! 4"]
  by (simp add: prepare_features_def five_observations_def Let_def rows_of_def)

subsection \<open>Running the predictor\<close>

lemma prepare_features_Inr:
  "hist \<noteq> [] \<Longrightarrow>
     \<exists>X. prepare_features hist = Inr (X, map o_temperature hist) \<and> length X = length hist"
  by (simp add: prepare_features_def Let_def)

lemma ten_nonempty: "ten_observations \<noteq> []" "length ten_observations = 10"
  by (simp_all add: ten_observations_def)

lemma ten_targets: "map o_temperature ten_observations = [10, 12, 14, 16, 18, 20, 22, 24, 26, 28]"
  by (simp add: ten_observations_def obs_def)

lemma train_ten:
  "train mean_lib ten_observations (new_predictor None, None) =
     (Inr True, \<lparr>p_model = Fitted 19, p_scaler = Fitted ()\<rparr>, Some (Fitted 19))"
proof -
  from prepare_features_Inr [OF ten_nonempty(1)] obtain X where
    pf: "prepare_features ten_observations = Inr (X, [10, 12, 14, 16, 18, 20, 22, 24, 26, 28])"
    unfolding ten_targets by blast
  show ?thesis
    by (simp add: train_def ten_nonempty(2) pf mean_lib_def new_predictor_def)
qed

lemma last_ten: "o_timestamp (last ten_observations) =
    \<lparr>dt_year = 2024, dt_month = 2, dt_day = 29, dt_hour = 12, dt_minute = 0, dt_second = 0,
      dt_nanosecond = 0\<rparr>"
  by (simp add: ten_observations_def obs_def)

lemma valid_last_ten: "valid_date (o_timestamp (last ten_observations))"
  by (simp add: last_ten valid_date_def days_in_month_def is_leap_def)

lemma ts_last_ten: "ts_value (o_timestamp (last ten_observations)) = 1709208000000000000"
  by (simp add: last_ten ts_value_def ordinal_def ordinal_ymd_def days_before_year_def
      days_before_month_def month_offsets_def year_length_def time_ns_def ns_per_day_def)

lemma next_day_examples:
  "next_day \<lparr>dt_year = 2024, dt_month = 2, dt_day = 29, dt_hour = 12, dt_minute = 0,
      dt_second = 0, dt_nanosecond = 0\<rparr> =
     \<lparr>dt_year = 2024, dt_month = 3, dt_day = 1, dt_hour = 12, dt_minute = 0, dt_second = 0,
       dt_nanosecond = 0\<rparr>"
  "next_day \<lparr>dt_year = 2024, dt_month = 3, dt_day = 1, dt_hour = 12, dt_minute = 0,
      dt_second = 0, dt_nanosecond = 0\<rparr> =
     \<lparr>dt_year = 2024, dt_month = 3, dt_day = 2, dt_hour = 12, dt_minute = 0, dt_second = 0,
       dt_nanosecond = 0\<rparr>"
  "next_day \<lparr>dt_year = 2024, dt_month = 3, dt_day = 2, dt_hour = 12, dt_minute = 0,
      dt_second = 0, dt_nanosecond = 0\<rparr> =
     \<lparr>dt_year = 2024, dt_month = 3, dt_day = 3, dt_hour = 12, dt_minute = 0, dt_second = 0,
       dt_nanosecond = 0\<rparr>"
  by (simp_all add: next_day_def days_in_month_def is_leap_def)

lemma dates_ten:
  "future_dates (o_timestamp (last ten_observations)) 3 =
     Inr [\<lparr>dt_year = 2024, dt_month = 3, dt_day = 1, dt_hour = 12, dt_minute = 0, dt_second = 0,
            dt_nanosecond = 0\<rparr>,
          \<lparr>dt_year = 2024, dt_month = 3, dt_day = 2, dt_hour = 12, dt_minute = 0, dt_second = 0,
            dt_nanosecond = 0\<rparr>,
          \<lparr>dt_year = 2024, dt_month = 3, dt_day = 3, dt_hour = 12, dt_minute = 0, dt_second = 0,
            dt_nanosecond = 0\<rparr>]"
proof -
  have u: "[1..<Suc (nat 3)] = [Suc 0, Suc (Suc 0), Suc (Suc (Suc 0))]"
    by (simp add: upt_rec eval_nat_numeral)
  have "future_dates (o_timestamp (last ten_observations)) 3 =
      Inr (map (\<lambda>j. (next_day ^^ j) (o_timestamp (last ten_observations))) [1..<Suc (nat 3)])"
    by (rule future_dates_ok) (simp_all add: ts_last_ten ns_per_day_def int64_max_def)
  then show ?thesis
    unfolding u list.map funpow.simps comp_def id_def last_ten
    by (simp only: next_day_examples)
qed

lemma fmt_dates:
  "strftime_ymd \<lparr>dt_year = 2024, dt_month = 3, dt_day = 1, dt_hour = 12, dt_minute = 0,
      dt_second = 0, dt_nanosecond = 0\<rparr> = ''2024-03-01''"
  "strftime_ymd \<lparr>dt_year = 2024, dt_month = 3, dt_day = 2, dt_hour = 12, dt_minute = 0,
      dt_second = 0, dt_nanosecond = 0\<rparr> = ''2024-03-02''"
  "strftime_ymd \<lparr>dt_year = 2024, dt_month = 3, dt_day = 3, dt_hour = 12, dt_minute = 0,
      dt_second = 0, dt_nanosecond = 0\<rparr> = ''2024-03-03''"
  by code_simp+

lemma fmt_date_one:
  "strftime_ymd \<lparr>dt_year = 2024, dt_month = 3, dt_day = Suc 0, dt_hour = 12, dt_minute = 0,
      dt_second = 0, dt_nanosecond = 0\<rparr> = ''2024-03-01''"
  using fmt_dates(1) by simp

lemma predict_ten:
  "predict mean_lib \<lparr>p_model = Fitted 19, p_scaler = Fitted ()\<rparr> ten_observations 3 =
     Inr (Some [\<lparr>date = ''2024-03-01'', predicted_temperature = 19\<rparr>,
                \<lparr>date = ''2024-03-02'', predicted_temperature = 19\<rparr>,
                \<lparr>date = ''2024-03-03'', predicted_temperature = 19\<rparr>])"
proof -
  from prepare_features_Inr [OF ten_nonempty(1)] obtain X where
    pf: "prepare_features ten_observations = Inr (X, map o_temperature ten_observations)"
    by blast
  have u: "[0..<3] = [0, Suc 0, Suc (Suc 0)]" by (simp add: upt_rec)
  show ?thesis
    by (simp add: predict_def ten_nonempty(2) pf dates_ten mean_lib_def
        Let_def u fmt_dates fmt_date_one)
qed

lemma predict_ten_overflow:
  "predict lib p ten_observations 100000 = Inl OutOfBoundsDatetime"
proof -
  from prepare_features_Inr [OF ten_nonempty(1)] obtain X where
    pf: "prepare_features ten_observations = Inr (X, map o_temperature ten_observations)"
    by blast
  have "dates_from (o_timestamp (last ten_observations)) 1 (nat 100000)
        = Inl OutOfBoundsDatetime"
    by (rule dates_from_overflow [where j = 100000])
      (simp_all add: ts_last_ten ns_per_day_def int64_max_def)
  then show ?thesis
    by (simp add: predict_def ten_nonempty(2) pf future_dates_def)
qed

lemma predict_unfitted_scaler:
  assumes "5 \<le> length hist" and "p_scaler p = Unfitted"
  shows "predict lib p hist k =
     (case future_dates (o_timestamp (last hist)) k of
        Inl e \<Rightarrow> Inl e | Inr dates \<Rightarrow> Inl NotFittedError)"
proof -
  from assms(1) have ne: "hist \<noteq> []" by auto
  from prepare_features_Inr [OF ne] obtain X where
    pf: "prepare_features hist = Inr (X, map o_temperature hist)"
    by blast
  from assms show ?thesis
    by (simp add: predict_def pf Let_def split: sum.splits)
qed

section \<open>The claims\<close>

subsection \<open>Claims about the alert system\<close>



text \<open>
  Claim C7. \<open>set_thresholds\<close> stores each supplied value as it is (there is no check of
  its range) and keeps every field whose argument is \<open>None\<close>; with no argument supplied
  the state is unchanged; the keyword list is never touched; after
  \<open>set_thresholds(extreme_heat=40)\<close> a point of 38 degrees gives no extreme-heat alert.
\<close>

theorem set_thresholds_frame:
  "set_thresholds st extreme_heat freezing high_wind heavy_rain =
     st\<lparr> extreme_heat_threshold := get_or extreme_heat (extreme_heat_threshold st),
         freezing_threshold := get_or freezing (freezing_threshold st),
         high_wind_threshold := get_or high_wind (high_wind_threshold st),
         heavy_rain_threshold := get_or heavy_rain (heavy_rain_threshold st) \<rparr>
   \<and> set_thresholds st None None None None = st
   \<and> storm_keywords (set_thresholds st extreme_heat freezing high_wind heavy_rain) = storm_keywords st
   \<and> alerts_of_type ''extreme_heat''
        (analyze_forecast str_of (set_thresholds st (Some 40) None None None)
           [forecast_point ts 38 wind desc]) = []"
proof -
  have a: "set_thresholds st extreme_heat freezing high_wind heavy_rain =
     st\<lparr> extreme_heat_threshold := get_or extreme_heat (extreme_heat_threshold st),
         freezing_threshold := get_or freezing (freezing_threshold st),
         high_wind_threshold := get_or high_wind (high_wind_threshold st),
         heavy_rain_threshold := get_or heavy_rain (heavy_rain_threshold st) \<rparr>"
    by (simp add: set_thresholds_def get_or_def split: option.splits)
  have b: "set_thresholds st None None None None = st"
    by (simp add: set_thresholds_def)
  have c: "storm_keywords (set_thresholds st extreme_heat freezing high_wind heavy_rain) = storm_keywords st"
    by (simp add: a)
  have d: "alerts_of_type ''extreme_heat''
        (analyze_forecast str_of (set_thresholds st (Some 40) None None None)
           [forecast_point ts 38 wind desc]) = []"
    by (simp add: analyze_forecast_concat point_alerts_def Let_def set_thresholds_def
        forecast_point_def get_or_def alerts_of_type_def freezing_alert_def wind_alert_def
        storm_scan_cases storm_alert_def)
  from a b c d show ?thesis by blast
qed

text \<open>
  Claim C8. Two alert systems that differ only in \<open>heavy_rain_threshold\<close> return the
  same alerts on every forecast input.
\<close>

theorem heavy_rain_threshold_inert:
  "analyze_forecast str_of (st\<lparr>heavy_rain_threshold := v\<rparr>) fs = analyze_forecast str_of st fs"
proof -
  have same: "point_alerts str_of (st\<lparr>heavy_rain_threshold := v\<rparr>) = point_alerts str_of st"
    by (rule ext) (simp add: point_alerts_def)
  show ?thesis
    by (simp add: analyze_forecast_concat same)
qed



subsection \<open>Claims about the trend predictor\<close>

text \<open>
  Claim C4. With fewer than 10 observations \<open>train\<close> returns \<open>False\<close> and leaves the
  model, the scaler and the model file as they were.
\<close>

theorem train_too_short:
  "length hist < 10 \<Longrightarrow> train lib hist (p, file) = (Inr False, p, file)"
  by (simp add: train_def)

text \<open>Five observations, a fresh predictor and no model file.\<close>

theorem train_too_short_witness:
  "train mean_lib five_observations (new_predictor None, None) = (Inr False, new_predictor None, None)"
  using train_too_short [of five_observations mean_lib "new_predictor None" None]
  by (simp add: five_observations_def)

text \<open>
  Claim C5. With fewer than 5 observations \<open>predict\<close> returns \<open>None\<close>, whatever the
  horizon, the library and the state of the predictor; it raises nothing.
\<close>

theorem predict_too_short:
  "length hist < 5 \<Longrightarrow> predict lib p hist k = Inr None"
  by (simp add: predict_def)

text \<open>Two observations and a horizon of 7 days.\<close>

theorem predict_too_short_witness:
  "predict mean_lib \<lparr>p_model = Fitted 19, p_scaler = Fitted ()\<rparr> mixed_observations 7 = Inr None"
  using predict_too_short [of mixed_observations mean_lib "\<lparr>p_model = Fitted 19, p_scaler = Fitted ()\<rparr>" 7]
  by (simp add: mixed_observations_def)

text \<open>
  Claim C2. After a successful \<open>train\<close> the model file holds the fitted regressor and
  nothing else: the scaler fitted by \<open>train\<close> lives only in the predictor that trained. A
  predictor constructed afterwards from the file has an unfitted scaler, and its
  \<open>predict\<close> on the training observations never returns a prediction: for every horizon
  it raises, \<open>NotFittedError\<close> at \<open>scaler.transform\<close> whenever the future dates can be
  built (and the error of the date arithmetic when they cannot), where the claim promises
  the prediction of the predictor that trained.
\<close>

theorem reloaded_predictor_not_fitted:
  assumes "train lib hist (p, file) = (Inr True, p', file')"
  shows "file' = Some (p_model p') \<and> p_scaler p' \<noteq> Unfitted
         \<and> predict lib (new_predictor file') hist k =
             (case future_dates (o_timestamp (last hist)) k of
                Inl e \<Rightarrow> Inl e | Inr dates \<Rightarrow> Inl NotFittedError)"
proof -
  have len: "\<not> length hist < 10"
    using assms by (auto simp: train_def)
  then have ne: "hist \<noteq> []" by auto
  from prepare_features_Inr [OF ne] obtain X where
    pf: "prepare_features hist = Inr (X, map o_temperature hist)"
    by blast
  have a: "file' = Some (p_model p') \<and> p_scaler p' \<noteq> Unfitted"
    using assms len pf by (auto simp: train_def split: sum.splits prod.splits)
  have b: "predict lib (new_predictor file') hist k =
             (case future_dates (o_timestamp (last hist)) k of
                Inl e \<Rightarrow> Inl e | Inr dates \<Rightarrow> Inl NotFittedError)"
    using len by (intro predict_unfitted_scaler) (simp_all add: new_predictor_def)
  from a b show ?thesis by simp
qed

text \<open>
  Ten observations and a horizon of three days: the predictor that trained predicts the
  three days, the one loaded from the file raises \<open>NotFittedError\<close>.
\<close>

theorem reloaded_predictor_not_fitted_witness:
  "predict mean_lib \<lparr>p_model = Fitted 19, p_scaler = Fitted ()\<rparr> ten_observations 3 =
     Inr (Some [\<lparr>date = ''2024-03-01'', predicted_temperature = 19\<rparr>,
                \<lparr>date = ''2024-03-02'', predicted_temperature = 19\<rparr>,
                \<lparr>date = ''2024-03-03'', predicted_temperature = 19\<rparr>])
   \<and> predict mean_lib (new_predictor (Some (Fitted 19))) ten_observations 3 = Inl NotFittedError"
  using reloaded_predictor_not_fitted [OF train_ten, of 3] predict_ten
  by (simp add: dates_ten)

text \<open>
  Claim C3, as the code has it. Let the scaler and the model of the predictor be fitted,
  as they are in the predictor that trained (the library operations of the fitted
  estimators succeed on every non-empty matrix and return one value per row), let there be
  at least 5 observations, and let the horizon \<open>k\<close> be at least 1 and small enough for
  \<open>timedelta(days=k)\<close> and for the \<open>k\<close>-th day after the last timestamp to fit a pandas
  \<open>Timestamp\<close>, which ends on 2262-04-11. Then \<open>predict\<close> returns exactly \<open>k\<close> points, and
  the date of point \<open>i\<close> (from 0) is a text of the form YYYY-MM-DD that reads as a calendar
  date whose day number is that of the last observation's date plus \<open>i + 1\<close>: the dates
  start with the day after the last observation and go on by one calendar day each.
\<close>

theorem predict_horizon:
  assumes scaler: "p_scaler p = Fitted s"
    and model: "p_model p = Fitted m"
    and len: "5 \<le> length hist"
    and k: "1 \<le> k" and delta: "k \<le> 106751"
    and valid: "valid_date (o_timestamp (last hist))"
    and range: "ts_value (o_timestamp (last hist)) + k * ns_per_day \<le> int64_max"
    and lib: "\<forall>rows. rows \<noteq> [] \<longrightarrow>
        (\<exists>X ys. transform lib s rows = Inr X \<and> predict_rows lib m X = Inr ys
                 \<and> length ys = length rows)"
  shows "\<exists>pts. predict lib p hist k = Inr (Some pts) \<and> length pts = nat k
      \<and> (\<forall>i < nat k. \<exists>y mo dd.
            parse_ymd (date (pts ! i)) = Some (y, mo, dd) \<and> calendar_date y mo dd
          \<and> ordinal_ymd y mo dd = ordinal (o_timestamp (last hist)) + Suc i)"
proof -
  let ?last = "o_timestamp (last hist)"
  let ?dates = "map (\<lambda>j. (next_day ^^ j) ?last) [1..<Suc (nat k)]"
  from len have ne: "hist \<noteq> []" by auto
  from prepare_features_Inr [OF ne] obtain X where
    pf: "prepare_features hist = Inr (X, map o_temperature hist)" by blast
  have fd: "future_dates ?last k = Inr ?dates"
    using k delta range by (rule future_dates_ok)
  let ?rows = "map (\<lambda>d. make_row d (temp_rolling_avg (last X))
      (humidity_rolling_avg (last X)) (pressure_rolling_avg (last X))) ?dates"
  have ld: "length ?dates = nat k" by simp
  with k have "?rows \<noteq> []" by auto
  with lib obtain Xs ys where
    tr: "transform lib s ?rows = Inr Xs" and pr: "predict_rows lib m Xs = Inr ys"
    and ly: "length ys = length ?rows" by blast
  let ?pts = "map (\<lambda>i. \<lparr>date = strftime_ymd (?dates ! i), predicted_temperature = ys ! i\<rparr>)
      [0..<length ?dates]"
  have res: "predict lib p hist k = Inr (Some ?pts)"
    using len pf fd scaler model tr pr ly by (simp add: predict_def Let_def del: upt_Suc)
  have lp: "length ?pts = nat k" by simp
  have each: "\<exists>y mo dd. parse_ymd (date (?pts ! i)) = Some (y, mo, dd) \<and> calendar_date y mo dd
          \<and> ordinal_ymd y mo dd = ordinal ?last + Suc i" if i: "i < nat k" for i
  proof -
    from i have d: "date (?pts ! i) = strftime_ymd ((next_day ^^ Suc i) ?last)"
      by (simp del: upt_Suc funpow.simps)
    from i have "int (Suc i) \<le> k" by simp
    then have "int (Suc i) * ns_per_day \<le> k * ns_per_day"
      by (rule mult_right_mono) (simp add: ns_per_day_def)
    with range have "ts_value ?last + int (Suc i) * ns_per_day \<le> int64_max" by simp
    from date_text_of_day [OF valid this] show ?thesis unfolding d by blast
  qed
  from res lp each show ?thesis by blast
qed

text \<open>Ten observations ending on 29 February 2024 and a horizon of 3 days.\<close>

theorem predict_horizon_witness:
  "\<exists>pts. predict mean_lib \<lparr>p_model = Fitted 19, p_scaler = Fitted ()\<rparr> ten_observations 3
            = Inr (Some pts)
      \<and> length pts = nat 3
      \<and> (\<forall>i < nat 3. \<exists>y mo dd.
            parse_ymd (date (pts ! i)) = Some (y, mo, dd) \<and> calendar_date y mo dd
          \<and> ordinal_ymd y mo dd = ordinal (o_timestamp (last ten_observations)) + Suc i)"
proof (rule predict_horizon [where s = "()" and m = 19])
  show "p_scaler \<lparr>p_model = Fitted 19, p_scaler = Fitted ()\<rparr> = Fitted ()" by simp
  show "p_model \<lparr>p_model = Fitted 19, p_scaler = Fitted ()\<rparr> = Fitted (19::rat)" by simp
  show "5 \<le> length ten_observations" by (simp add: ten_nonempty)
  show "(1::int) \<le> 3" by simp
  show "(3::int) \<le> 106751" by simp
  show "valid_date (o_timestamp (last ten_observations))" by (rule valid_last_ten)
  show "ts_value (o_timestamp (last ten_observations)) + 3 * ns_per_day \<le> int64_max"
    by (simp add: ts_last_ten ns_per_day_def int64_max_def)
  show "\<forall>rows. rows \<noteq> [] \<longrightarrow>
        (\<exists>X ys. transform mean_lib () rows = Inr X \<and> predict_rows mean_lib 19 X = Inr ys
                 \<and> length ys = length rows)"
    by (simp add: mean_lib_def)
qed

text \<open>
  Claim C3 as stated fails for a large horizon and for a trained model that was loaded
  from its file. The predictor that trained on ten observations ending on 29 February
  2024 raises \<open>OutOfBoundsDatetime\<close> for a horizon of 100000 days, which ends after
  2262-04-11; and a predictor constructed from the file that this training wrote raises
  \<open>NotFittedError\<close> for a horizon of 3 days, its scaler being a new one.
\<close>

theorem predict_horizon_counterexample:
  "train mean_lib ten_observations (new_predictor None, None) =
     (Inr True, \<lparr>p_model = Fitted 19, p_scaler = Fitted ()\<rparr>, Some (Fitted 19))
   \<and> predict mean_lib \<lparr>p_model = Fitted 19, p_scaler = Fitted ()\<rparr> ten_observations 100000
       = Inl OutOfBoundsDatetime
   \<and> predict mean_lib (new_predictor (Some (Fitted 19))) ten_observations 3
       = Inl NotFittedError"
proof -
  have "predict mean_lib (new_predictor (Some (Fitted 19))) ten_observations 3 =
      (case future_dates (o_timestamp (last ten_observations)) 3 of
         Inl e \<Rightarrow> Inl e | Inr dates \<Rightarrow> Inl NotFittedError)"
    by (rule predict_unfitted_scaler) (simp_all add: ten_nonempty new_predictor_def)
  then have "predict mean_lib (new_predictor (Some (Fitted 19))) ten_observations 3
      = Inl NotFittedError"
    by (simp add: dates_ten)
  with train_ten predict_ten_overflow show ?thesis by simp
qed

text \<open>
  Claim C1, as the code has it. For a sequence of more than 5 observations
  \<open>prepare_features\<close> returns one feature row per observation, and at every index \<open>i\<close>
  the temperature and the humidity feature are the arithmetic means of temperature and of
  humidity over the indices \<open>max(0, i - 4) .. i\<close>. The pressure feature is the mean of the
  pressure (1013 where there is none) over the same indices when no observation of the
  sequence has a pressure, or every observation of the window has one.
\<close>

theorem rolling_average_long_sequences:
  assumes long: "5 < length hist"
  shows "\<exists>X y. prepare_features hist = Inr (X, y) \<and> length X = length hist
      \<and> (\<forall>i < length hist.
            temp_rolling_avg (X ! i) = Some (spec_window_mean (map o_temperature hist) i)
          \<and> humidity_rolling_avg (X ! i) = Some (spec_window_mean (map o_humidity hist) i)
          \<and> ((\<forall>ob \<in> set hist. o_pressure ob = None)
               \<or> (\<forall>j. i - 4 \<le> j \<and> j \<le> i \<longrightarrow> o_pressure (hist ! j) \<noteq> None)
             \<longrightarrow> pressure_rolling_avg (X ! i)
                   = Some (spec_window_mean (map pressure_or_default hist) i)))"
proof -
  let ?X = "map (\<lambda>i. make_row (o_timestamp (hist ! i))
                     (rolling_mean 5 (map (\<lambda>ob. Some (o_temperature ob)) hist) ! i)
                     (rolling_mean 5 (map (\<lambda>ob. Some (o_humidity ob)) hist) ! i)
                     (rolling_mean 5 (pressure_column hist) ! i)) [0..<length hist]"
  have t: "map (\<lambda>ob. Some (o_temperature ob)) hist = map Some (map o_temperature hist)"
    and h: "map (\<lambda>ob. Some (o_humidity ob)) hist = map Some (map o_humidity hist)"
    by simp_all
  have th: "temp_rolling_avg (?X ! i) = Some (spec_window_mean (map o_temperature hist) i)
      \<and> humidity_rolling_avg (?X ! i) = Some (spec_window_mean (map o_humidity hist) i)"
    if "i < length hist" for i
    using that by (simp add: make_row_def t h rolling_mean_spec_map)
  have pr: "pressure_rolling_avg (?X ! i)
          = Some (spec_window_mean (map pressure_or_default hist) i)"
    if "i < length hist"
      and "(\<forall>ob \<in> set hist. o_pressure ob = None)
           \<or> (\<forall>j. i - 4 \<le> j \<and> j \<le> i \<longrightarrow> o_pressure (hist ! j) \<noteq> None)" for i
    using that(1) pressure_window [OF that] by (simp add: make_row_def)
  have "prepare_features hist = Inr (?X, map o_temperature hist)"
    by (rule prepare_features_long [OF long])
  moreover have "length ?X = length hist" by simp
  ultimately show ?thesis using th pr by blast
qed

text \<open>Ten observations, all with a pressure.\<close>

theorem rolling_average_long_sequences_witness:
  "\<exists>X y. prepare_features ten_observations = Inr (X, y) \<and> length X = length ten_observations
      \<and> (\<forall>i < length ten_observations.
            temp_rolling_avg (X ! i) = Some (spec_window_mean (map o_temperature ten_observations) i)
          \<and> humidity_rolling_avg (X ! i)
              = Some (spec_window_mean (map o_humidity ten_observations) i)
          \<and> pressure_rolling_avg (X ! i)
              = Some (spec_window_mean (map pressure_or_default ten_observations) i))"
proof -
  have long: "5 < length ten_observations" by (simp add: ten_nonempty)
  have pres: "\<forall>ob \<in> set ten_observations. o_pressure ob \<noteq> None"
    by (simp add: ten_observations_def obs_def)
  have win: "(\<forall>ob \<in> set ten_observations. o_pressure ob = None)
      \<or> (\<forall>j. i - 4 \<le> j \<and> j \<le> i \<longrightarrow> o_pressure (ten_observations ! j) \<noteq> None)"
    if "i < length ten_observations" for i
  proof (intro disjI2 allI impI)
    fix j assume "i - 4 \<le> j \<and> j \<le> i"
    with that have "j < length ten_observations" by simp
    then have "ten_observations ! j \<in> set ten_observations" by (rule nth_mem)
    with pres show "o_pressure (ten_observations ! j) \<noteq> None" by (rule bspec)
  qed
  have "\<exists>X y. prepare_features ten_observations = Inr (X, y)
      \<and> length X = length ten_observations
      \<and> (\<forall>i < length ten_observations.
            temp_rolling_avg (X ! i) = Some (spec_window_mean (map o_temperature ten_observations) i)
          \<and> humidity_rolling_avg (X ! i)
              = Some (spec_window_mean (map o_humidity ten_observations) i)
          \<and> ((\<forall>ob \<in> set ten_observations. o_pressure ob = None)
               \<or> (\<forall>j. i - 4 \<le> j \<and> j \<le> i \<longrightarrow> o_pressure (ten_observations ! j) \<noteq> None)
             \<longrightarrow> pressure_rolling_avg (X ! i)
                   = Some (spec_window_mean (map pressure_or_default ten_observations) i)))"
    by (rule rolling_average_long_sequences [OF long])
  then obtain X y where r: "prepare_features ten_observations = Inr (X, y)"
    and l: "length X = length ten_observations"
    and a: "\<And>i. i < length ten_observations \<Longrightarrow>
            temp_rolling_avg (X ! i) = Some (spec_window_mean (map o_temperature ten_observations) i)
          \<and> humidity_rolling_avg (X ! i)
              = Some (spec_window_mean (map o_humidity ten_observations) i)
          \<and> ((\<forall>ob \<in> set ten_observations. o_pressure ob = None)
               \<or> (\<forall>j. i - 4 \<le> j \<and> j \<le> i \<longrightarrow> o_pressure (ten_observations ! j) \<noteq> None)
             \<longrightarrow> pressure_rolling_avg (X ! i)
                   = Some (spec_window_mean (map pressure_or_default ten_observations) i))"
    by (elim exE conjE) simp
  show ?thesis
  proof (intro exI conjI allI impI)
    show "prepare_features ten_observations = Inr (X, y)" by (rule r)
    show "length X = length ten_observations" by (rule l)
  next
    fix i assume i: "i < length ten_observations"
    from a [OF i] show "temp_rolling_avg (X ! i)
        = Some (spec_window_mean (map o_temperature ten_observations) i)" by (rule conjunct1)
  next
    fix i assume i: "i < length ten_observations"
    from a [OF i] show "humidity_rolling_avg (X ! i)
        = Some (spec_window_mean (map o_humidity ten_observations) i)"
      by (elim conjE)
  next
    fix i assume i: "i < length ten_observations"
    from a [OF i] have "(\<forall>ob \<in> set ten_observations. o_pressure ob = None)
               \<or> (\<forall>j. i - 4 \<le> j \<and> j \<le> i \<longrightarrow> o_pressure (ten_observations ! j) \<noteq> None)
             \<longrightarrow> pressure_rolling_avg (X ! i)
                   = Some (spec_window_mean (map pressure_or_default ten_observations) i)"
      by (elim conjE)
    from this win [OF i] show "pressure_rolling_avg (X ! i)
        = Some (spec_window_mean (map pressure_or_default ten_observations) i)" by (rule mp)
  qed
qed

text \<open>
  Claim C1 as stated fails on the example it names: with the five temperatures
  10, 20, 10, 20, 10 the guard \<open>len(df) > 5\<close> is false, the feature column is the raw
  temperature column, and the fifth \<open>temp_rolling_avg\<close> is 10 where the window mean is 14.
  It also fails for the pressure of longer sequences: of six observations of which only
  the first has no pressure, the second pressure feature is 1000, the mean of the one
  pressure in its window, where the mean of 1013 and 1000 is 2013/2.
\<close>

theorem rolling_average_counterexample:
  "temp_rolling_avg (rows_of (prepare_features five_observations) ! 4) = Some 10
   \<and> spec_window_mean (map o_temperature five_observations) 4 = 14
   \<and> temp_rolling_avg (rows_of (prepare_features five_observations) ! 4)
       \<noteq> Some (spec_window_mean (map o_temperature five_observations) 4)
   \<and> pressure_rolling_avg (rows_of (prepare_features six_observations) ! 1) = Some 1000
   \<and> spec_window_mean (map pressure_or_default six_observations) 1 = 2013 / 2
   \<and> pressure_rolling_avg (rows_of (prepare_features six_observations) ! 1)
       \<noteq> Some (spec_window_mean (map pressure_or_default six_observations) 1)"
  unfolding five_fifth spec_five six_pressure_features(2) spec_six
  by simp

text \<open>
  Claim C9. For every non-empty sequence, of any length, the temperature and the humidity
  feature of the first observation are its own temperature and humidity. Its pressure
  feature is 1013 only when no observation of the sequence has a pressure; as soon as one
  has, the frame has a \<open>pressure\<close> column, \<open>df.get\<close> does not use its default, and the
  feature is the first observation's own cell: NaN when it has no pressure, where the
  claim says 1013.
\<close>

theorem first_observation_row:
  assumes ne: "hist \<noteq> []"
  shows "\<exists>X y. prepare_features hist = Inr (X, y)
      \<and> temp_rolling_avg (X ! 0) = Some (o_temperature (hist ! 0))
      \<and> humidity_rolling_avg (X ! 0) = Some (o_humidity (hist ! 0))
      \<and> pressure_rolling_avg (X ! 0)
          = (if list_ex (\<lambda>ob. o_pressure ob \<noteq> None) hist then o_pressure (hist ! 0)
             else Some 1013)"
proof -
  from ne have pos: "0 < length hist" by simp
  have pc: "pressure_column hist \<noteq> []" using ne by (simp add: pressure_column_def)
  note p0 = pressure_column_head [OF ne]
  show ?thesis
  proof (cases "5 < length hist")
    case True
    show ?thesis
      using ne pos True pc
      by (simp add: prepare_features_def Let_def make_row_def rolling_mean_first nan_mean_one
          p0 nth_map [OF pos] del: upt_Suc)
  next
    case False
    show ?thesis
      using ne pos False
      by (simp add: prepare_features_def Let_def make_row_def p0 nth_map [OF pos] del: upt_Suc)
  qed
qed

text \<open>
  Six observations of which only the first has no pressure: its pressure feature is NaN,
  and the claim's value is 1013.
\<close>

theorem first_observation_row_witness:
  "\<exists>X y. prepare_features six_observations = Inr (X, y)
      \<and> temp_rolling_avg (X ! 0) = Some 10
      \<and> humidity_rolling_avg (X ! 0) = Some 50
      \<and> pressure_rolling_avg (X ! 0) = None
      \<and> pressure_or_default (six_observations ! 0) = 1013"
proof -
  have ne: "six_observations \<noteq> []" by (simp add: six_observations_def)
  have v: "o_temperature (six_observations ! 0) = 10" "o_humidity (six_observations ! 0) = 50"
    "o_pressure (six_observations ! 0) = None"
    "pressure_or_default (six_observations ! 0) = 1013"
    by (simp_all add: six_observations_def obs_def pressure_or_default_def get_or_def)
  have ex: "list_ex (\<lambda>ob. o_pressure ob \<noteq> None) six_observations"
    by (simp add: six_observations_def obs_def)
  from first_observation_row [OF ne] obtain X y where
    r: "prepare_features six_observations = Inr (X, y)"
    and t: "temp_rolling_avg (X ! 0) = Some (o_temperature (six_observations ! 0))"
    and h: "humidity_rolling_avg (X ! 0) = Some (o_humidity (six_observations ! 0))"
    and p: "pressure_rolling_avg (X ! 0)
          = (if list_ex (\<lambda>ob. o_pressure ob \<noteq> None) six_observations
             then o_pressure (six_observations ! 0) else Some 1013)"
    by (elim exE conjE)
  from p ex have "pressure_rolling_avg (X ! 0) = None" by (simp add: v(3))
  with r t h v show ?thesis by simp
qed

end
